theory Spec2Isabelle
  imports Complex_Main
begin

section \<open>Script values\<close>

text \<open>
  A script number is either an integer-tagged value (a C \<open>int\<close>) or a double. A finite
  double is read as the real number it denotes; the three non-finite doubles are separate
  constructors. No arithmetic is done on the C ints of this file (timer identifiers, error
  codes, priorities), so they are HOL integers.
\<close>

datatype number = Integer int | Double real | NaN | PosInfinity | NegInfinity

datatype jsvalue =
    Undefined
  | Null
  | Boolean bool
  | Number number
  | Str string
  | FunctionObject nat
  | Object nat

text \<open>\<open>Value::isNumber\<close> and \<open>Value::asFunctionObject\<close> (null when the value is no function).\<close>

fun isNumber :: "jsvalue \<Rightarrow> bool" where
  "isNumber (Number n) = True"
| "isNumber v = False"

fun asFunctionObject :: "jsvalue \<Rightarrow> jsvalue option" where
  "asFunctionObject (FunctionObject f) = Some (FunctionObject f)"
| "asFunctionObject v = None"

definition INT_MAX :: int where
  "INT_MAX = 2147483647"


text \<open>A C cast from double to int: the fraction is dropped, towards zero.\<close>

definition static_cast_int :: "real \<Rightarrow> int" where
  "static_cast_int d = (if d < 0 then - \<lfloor>- d\<rfloor> else \<lfloor>d\<rfloor>)"

text \<open>C \<open>fmod\<close> on integral arguments: the result has the sign of the dividend.\<close>

definition fmod :: "int \<Rightarrow> int \<Rightarrow> int" where
  "fmod a b = sgn a * (\<bar>a\<bar> mod \<bar>b\<bar>)"

text \<open>
  Modelled from the spec: \<open>Value::toInt32\<close> belongs to the host engine and is not among the
  sources. The timer operations are said to coerce their numeric argument with a toInt32
  conversion that truncates a fraction towards zero; this is the ECMAScript conversion of
  that name: an integer-tagged value is returned as it is, a double inside the 32-bit range
  is cast, a non-finite double gives 0, and any other double is truncated and reduced
  modulo \<open>2 ^ 32\<close> into the signed 32-bit range.
\<close>

fun toInt32 :: "number \<Rightarrow> int" where
  "toInt32 (Integer i) = i"
| "toInt32 (Double d) =
     (if - 2147483648 \<le> d \<and> d < 2147483648 then static_cast_int d
      else let m = fmod (static_cast_int d) 4294967296
           in if m < - 2147483648 then m + 4294967296
              else if 2147483648 \<le> m then m - 4294967296
              else m)"
| "toInt32 NaN = 0"
| "toInt32 PosInfinity = 0"
| "toInt32 NegInfinity = 0"

section \<open>Exceptions\<close>

text \<open>
  \<open>ErrnoExceptionObject\<close>: an error object with its message and the properties that the
  constructor defines on it.
\<close>

record ErrnoExceptionObject =
  message :: string
  properties :: "string \<rightharpoonup> jsvalue"

definition defineDefaultProperty ::
  "string \<Rightarrow> jsvalue \<Rightarrow> ErrnoExceptionObject \<Rightarrow> ErrnoExceptionObject" where
  "defineDefaultProperty name v self = self\<lparr>properties := (properties self)(name \<mapsto> v)\<rparr>"

text \<open>What a script operation throws: \<open>throwError\<close> with a message, \<open>throwTypeError\<close>
  with a message, or \<open>throwError\<close> with an errno exception object.\<close>

datatype exception =
    Error string
  | TypeError string
  | ErrnoException ErrnoExceptionObject

text \<open>A failed \<open>Q_ASSERT\<close>, with the asserted condition. The assertions are taken as
  compiled in.\<close>

datatype fatal = AssertionFailed string

section \<open>The engine and its host\<close>

datatype event = NextTickEvent jsvalue | OtherEvent nat

text \<open>
  The state of one \<open>EnginePrivate\<close> together with the part of the host that its operations
  reach: the native timers that are running for this object (identifier and interval) and
  the host loop's queue of posted events, each with its priority.
\<close>

record engine =
  globalObject :: jsvalue
  m_coreModules :: "string \<rightharpoonup> jsvalue"
  m_cachedModules :: "string \<rightharpoonup> nat"
  m_timeoutCallbacks :: "int \<rightharpoonup> jsvalue"
  m_intervalCallbacks :: "int \<rightharpoonup> jsvalue"
  hostTimers :: "int \<rightharpoonup> int"
  postedEvents :: "(event \<times> int) list"

text \<open>
  Modelled from the spec: the host facilities of its section 6, which are not among the
  sources. \<open>startTimer\<close> starts a native timer and gives its identifier, or 0 when the
  host cannot start one; the identifier is the host's choice and is taken as the argument
  \<open>answer\<close>. \<open>killTimer\<close> stops the native timer with the given identifier, if there is one.
\<close>

definition startTimer :: "int \<Rightarrow> int \<Rightarrow> engine \<Rightarrow> int \<times> engine" where
  "startTimer answer interval st =
     (if answer = 0 then (0, st)
      else (answer, st\<lparr>hostTimers := (hostTimers st)(answer \<mapsto> interval)\<rparr>))"

definition killTimer :: "int \<Rightarrow> engine \<Rightarrow> engine" where
  "killTimer timerId st = st\<lparr>hostTimers := (hostTimers st)(timerId := None)\<rparr>"

text \<open>
  Posting an event into the native loop is the host's work (\<open>postEvent\<close> is not among the
  sources). It is an argument of the operation that posts: the event, its priority and the
  state in which it is posted. Nothing is fixed here about where the host puts the event.
\<close>

type_synonym post = "event \<Rightarrow> int \<Rightarrow> engine \<Rightarrow> engine"


text \<open>Modelled from the spec: the host's string for an OS error code is the argument
  \<open>strerror\<close> of the error bridge.\<close>

type_synonym os_strings = "int \<Rightarrow> string"

text \<open>
  Calling a script function is the host engine's work; a call may run any script and so
  change the engine. It is an argument of the operations that dispatch callbacks: the
  function, the receiver, the arguments and the state in which the call starts.
\<close>

type_synonym call = "jsvalue \<Rightarrow> jsvalue \<Rightarrow> jsvalue list \<Rightarrow> engine \<Rightarrow> engine"

section \<open>The engine context registry and the module cache\<close>

text \<open>
  \<open>EnginePrivate::m_nodeEngines\<close> maps a host engine to the context made for it. The
  constructor inserts, and a hash insert replaces an entry that is there; it has no failing
  branch.
\<close>

type_synonym registry = "nat \<rightharpoonup> nat"

definition EnginePrivate_new :: "registry \<Rightarrow> nat \<Rightarrow> nat \<Rightarrow> fatal + registry" where
  "EnginePrivate_new m_nodeEngines m_v4 this = Inr (m_nodeEngines(m_v4 \<mapsto> this))"

definition EnginePrivate_delete :: "registry \<Rightarrow> nat \<Rightarrow> registry" where
  "EnginePrivate_delete m_nodeEngines m_v4 = m_nodeEngines(m_v4 := None)"

definition get :: "registry \<Rightarrow> nat \<Rightarrow> nat option" where
  "get m_nodeEngines v4 = m_nodeEngines v4"

definition hasNativeModule :: "engine \<Rightarrow> string \<Rightarrow> bool" where
  "hasNativeModule st ident = (m_coreModules st ident \<noteq> None)"

definition hasCachedModule :: "engine \<Rightarrow> string \<Rightarrow> bool" where
  "hasCachedModule st ident = (m_cachedModules st ident \<noteq> None)"

definition cachedModule :: "engine \<Rightarrow> string \<Rightarrow> nat option" where
  "cachedModule st ident = m_cachedModules st ident"

definition cacheModule :: "engine \<Rightarrow> string \<Rightarrow> nat \<Rightarrow> fatal + engine" where
  "cacheModule st ident moduleObject =
     (if hasCachedModule st ident then Inl (AssertionFailed ''!m_cachedModules.contains(id)'')
      else Inr (st\<lparr>m_cachedModules := (m_cachedModules st)(ident \<mapsto> moduleObject)\<rparr>))"

section \<open>Timers\<close>

text \<open>
  The operations take the engine and the argument list of the call (\<open>argc\<close> is its
  length) and give what they return or throw, with the engine afterwards. A throw leaves
  the engine as it was. The test \<open>isNumber\<close> and the \<open>toInt32\<close> that follows it are the
  case distinction on \<open>Number n\<close>: \<open>toInt32\<close> is not reached for a value that is no
  number.
\<close>

definition setTimeout :: "int \<Rightarrow> engine \<Rightarrow> jsvalue list \<Rightarrow> (exception + jsvalue) \<times> engine" where
  "setTimeout answer st args =
     (if length args < 2 then (Inl (Error ''setTimeout: missing arguments''), st)
      else case asFunctionObject (args ! 0) of
        None \<Rightarrow> (Inl (TypeError ''setTimeout: callback must be a function''), st)
      | Some cb \<Rightarrow>
          (case args ! 1 of
             Number n \<Rightarrow>
               (let delay = toInt32 n;
                    delay = (if delay \<le> 0 then 1 else delay);
                    (timerId, st1) = startTimer answer delay st
                in if timerId = 0 then (Inl (Error ''setTimeout: cannot start timer''), st1)
                   else (Inr (Number (Integer timerId)),
                         st1\<lparr>m_timeoutCallbacks := (m_timeoutCallbacks st1)(timerId \<mapsto> cb)\<rparr>))
           | _ \<Rightarrow> (Inl (TypeError ''setTimeout: timeout must be an integer''), st)))"

definition clearTimeout :: "engine \<Rightarrow> jsvalue list \<Rightarrow> (exception + jsvalue) \<times> engine" where
  "clearTimeout st args =
     (if length args < 1 then (Inl (Error ''clearTimeout: missing arguments''), st)
      else case args ! 0 of
        Number n \<Rightarrow>
          (let timerId = toInt32 n
           in if m_timeoutCallbacks st timerId \<noteq> None
              then (let st1 = killTimer timerId st
                    in (Inr Undefined,
                        st1\<lparr>m_timeoutCallbacks := (m_timeoutCallbacks st1)(timerId := None)\<rparr>))
              else (Inr Undefined, st))
      | _ \<Rightarrow> (Inl (TypeError ''clearTimeout: timeout must be an integer (at the moment)''), st))"

definition setInterval :: "int \<Rightarrow> engine \<Rightarrow> jsvalue list \<Rightarrow> (exception + jsvalue) \<times> engine" where
  "setInterval answer st args =
     (if length args < 2 then (Inl (Error ''setInterval: missing arguments''), st)
      else case asFunctionObject (args ! 0) of
        None \<Rightarrow> (Inl (TypeError ''setInterval: callback must be a function''), st)
      | Some cb \<Rightarrow>
          (case args ! 1 of
             Number n \<Rightarrow>
               (let delay = toInt32 n;
                    delay = (if delay \<le> 0 then 1 else delay);
                    (timerId, st1) = startTimer answer delay st
                in if timerId = 0 then (Inl (Error ''setInterval: cannot start timer''), st1)
                   else (Inr (Number (Integer timerId)),
                         st1\<lparr>m_intervalCallbacks := (m_intervalCallbacks st1)(timerId \<mapsto> cb)\<rparr>))
           | _ \<Rightarrow> (Inl (TypeError ''setInterval: timeout must be an integer''), st)))"

text \<open>The guard of \<open>clearInterval\<close> is the negation of the one in \<open>clearTimeout\<close>.\<close>

definition clearInterval :: "engine \<Rightarrow> jsvalue list \<Rightarrow> (exception + jsvalue) \<times> engine" where
  "clearInterval st args =
     (if length args < 1 then (Inl (Error ''clearInterval: missing arguments''), st)
      else case args ! 0 of
        Number n \<Rightarrow>
          (let timerId = toInt32 n
           in if \<not> (m_intervalCallbacks st timerId \<noteq> None)
              then (let st1 = killTimer timerId st
                    in (Inr Undefined,
                        st1\<lparr>m_intervalCallbacks := (m_intervalCallbacks st1)(timerId := None)\<rparr>))
              else (Inr Undefined, st))
      | _ \<Rightarrow> (Inl (TypeError ''clearInterval: timeout must be an integer (at the moment)''), st))"

text \<open>
  \<open>timerEvent\<close>: the host signals that the native timer \<open>timerId\<close> has expired. The call
  of the callback is the last step, in the state that the steps before it have left. (The
  source calls the callback through \<open>SimpleScriptFunction::call\<close> here and through the
  function's own \<open>call\<close> in \<open>customEvent\<close>; both are the argument \<open>scriptCall\<close>.)
\<close>

definition timerEvent :: "call \<Rightarrow> engine \<Rightarrow> int \<Rightarrow> engine" where
  "timerEvent scriptCall st timerId =
     (case m_timeoutCallbacks st timerId of
        Some cb \<Rightarrow>
          (let st1 = killTimer timerId st;
               st2 = st1\<lparr>m_timeoutCallbacks := (m_timeoutCallbacks st1)(timerId := None)\<rparr>
           in scriptCall cb (globalObject st2) [] st2)
      | None \<Rightarrow>
          (case m_intervalCallbacks st timerId of
             Some cb \<Rightarrow> scriptCall cb (globalObject st) [] st
           | None \<Rightarrow> st))"

section \<open>Deferred callbacks\<close>

definition nextTick ::
  "post \<Rightarrow> engine \<Rightarrow> jsvalue list \<Rightarrow> (exception + jsvalue) \<times> engine" where
  "nextTick postEvent st args =
     (if length args = 0 then (Inl (Error ''setInterval: missing arguments''), st)
      else case asFunctionObject (args ! 0) of
        None \<Rightarrow> (Inl (TypeError ''setInterval: callback must be a function''), st)
      | Some cb \<Rightarrow> (Inr Undefined, postEvent (NextTickEvent cb) INT_MAX st))"

text \<open>\<open>customEvent\<close>: the host delivers a posted event. An event of another type is left
  to \<open>QObject::customEvent\<close>, which does nothing.\<close>

fun customEvent :: "call \<Rightarrow> engine \<Rightarrow> event \<Rightarrow> engine" where
  "customEvent scriptCall st (OtherEvent t) = st"
| "customEvent scriptCall st (NextTickEvent cb) = scriptCall cb (globalObject st) [] st"

section \<open>The error bridge\<close>

text \<open>The constructor of \<open>ErrnoExceptionObject\<close>; \<open>errno\<close> is always defined, \<open>syscall\<close>
  and \<open>path\<close> only for a string that is not empty.\<close>

definition ErrnoExceptionObject_new ::
  "string \<Rightarrow> int \<Rightarrow> string \<Rightarrow> string \<Rightarrow> ErrnoExceptionObject" where
  "ErrnoExceptionObject_new msg errorNo syscall path =
     (let self = \<lparr>message = msg, properties = Map.empty\<rparr>;
          self = defineDefaultProperty ''errno'' (Number (Integer errorNo)) self;
          self = (if syscall \<noteq> [] then defineDefaultProperty ''syscall'' (Str syscall) self
                  else self);
          self = (if path \<noteq> [] then defineDefaultProperty ''path'' (Str path) self
                  else self)
      in self)"

text \<open>
  \<open>throwErrnoException\<close> passes no path to the constructor. The default of that parameter
  is in a header that is not among the sources; it is the argument \<open>defaultPath\<close>.
\<close>

definition throwErrnoException ::
  "os_strings \<Rightarrow> string \<Rightarrow> engine \<Rightarrow> int \<Rightarrow> string \<Rightarrow> (exception + jsvalue) \<times> engine" where
  "throwErrnoException strerror defaultPath st errorNo syscall =
     (let msg = strerror errorNo
      in (Inl (ErrnoException (ErrnoExceptionObject_new msg errorNo syscall defaultPath)), st))"

section \<open>Example states\<close>

definition engine0 :: engine where
  "engine0 = \<lparr>globalObject = Object 0, m_coreModules = Map.empty, m_cachedModules = Map.empty,
     m_timeoutCallbacks = Map.empty, m_intervalCallbacks = Map.empty,
     hostTimers = Map.empty, postedEvents = []\<rparr>"

text \<open>A script call that does nothing, and one whose script sets a timeout of 10 for the
  function it runs, the host answering with the timer identifier 1.\<close>

definition idleCall :: call where
  "idleCall f this args st = st"

definition rearmCall :: call where
  "rearmCall f this args st = snd (setTimeout 1 st [f, Number (Integer 10)])"

text \<open>A registry that holds a context for the host engine 1; an engine with one pending
  timeout (timer 1) and an engine with one running interval (timer 2).\<close>

definition registry1 :: registry where
  "registry1 = Map.empty(1 \<mapsto> 10)"

definition engine1 :: engine where
  "engine1 = snd (setTimeout 1 engine0 [FunctionObject 0, Number (Integer 10)])"

definition engine2 :: engine where
  "engine2 = snd (setInterval 2 engine0 [FunctionObject 0, Number (Integer 10)])"

text \<open>A host loop that puts every posted event at the end of its queue, and an engine
  with one deferred callback pending.\<close>

definition appendEvent :: post where
  "appendEvent e p st = st\<lparr>postedEvents := postedEvents st @ [(e, p)]\<rparr>"


section \<open>Auxiliary facts\<close>

lemma asFunctionObject_Some: "asFunctionObject v = Some f \<Longrightarrow> f = v"
  by (cases v) auto

lemma isNumber_iff: "isNumber v = (\<exists>n. v = Number n)"
  by (cases v) auto

lemma engine1_eq:
  "engine1 = engine0\<lparr>hostTimers := [1 \<mapsto> 10], m_timeoutCallbacks := [1 \<mapsto> FunctionObject 0]\<rparr>"
  by (simp add: engine1_def setTimeout_def startTimer_def engine0_def)

lemma engine2_eq:
  "engine2 = engine0\<lparr>hostTimers := [2 \<mapsto> 10], m_intervalCallbacks := [2 \<mapsto> FunctionObject 0]\<rparr>"
  by (simp add: engine2_def setInterval_def startTimer_def engine0_def)

lemma static_cast_int_of_int: "static_cast_int (real_of_int k) = k"
  by (simp add: static_cast_int_def)

lemma static_cast_int_range:
  "- 2147483648 \<le> d \<Longrightarrow> d < 2147483648 \<Longrightarrow>
   - 2147483648 \<le> static_cast_int d \<and> static_cast_int d < 2147483648"
  unfolding static_cast_int_def by (auto; linarith)

lemma fmod_small: "- 2147483648 \<le> k \<Longrightarrow> k < 2147483648 \<Longrightarrow> fmod k 4294967296 = k"
  by (simp add: fmod_def sgn_if abs_if)

lemma toInt32_of_int:
  "toInt32 (Double (real_of_int k)) =
     (if - 2147483648 \<le> k \<and> k < 2147483648 then k
      else let m = fmod k 4294967296
           in if m < - 2147483648 then m + 4294967296
              else if 2147483648 \<le> m then m - 4294967296
              else m)"
proof -
  have "(- 2147483648 \<le> real_of_int k \<and> real_of_int k < 2147483648) =
        (- 2147483648 \<le> k \<and> k < 2147483648)"
    by linarith
  then show ?thesis
    by (simp only: toInt32.simps static_cast_int_of_int)
qed

text \<open>The cast is the integer with the sign of the double and the magnitude
  \<open>\<lfloor>\<bar>d\<bar>\<rfloor>\<close>.\<close>

lemma static_cast_int_trunc:
  "static_cast_int d = (if d < 0 then - \<lfloor>\<bar>d\<bar>\<rfloor> else \<lfloor>\<bar>d\<bar>\<rfloor>)"
  by (simp add: static_cast_int_def)

text \<open>The fraction of a double never reaches the result of \<open>toInt32\<close>.\<close>

lemma toInt32_fraction:
  "toInt32 (Double d) = toInt32 (Double (real_of_int (static_cast_int d)))"
proof -
  let ?t = "static_cast_int d"
  let ?W = "let m = fmod ?t 4294967296
            in if m < - 2147483648 then m + 4294967296
               else if 2147483648 \<le> m then m - 4294967296
               else m"
  have L: "toInt32 (Double d) = (if - 2147483648 \<le> d \<and> d < 2147483648 then ?t else ?W)"
    by (simp only: toInt32.simps)
  have R: "toInt32 (Double (real_of_int ?t)) =
             (if - 2147483648 \<le> ?t \<and> ?t < 2147483648 then ?t else ?W)"
    by (rule toInt32_of_int)
  have W: "?W = ?t" if "- 2147483648 \<le> ?t \<and> ?t < 2147483648"
    using that by (simp add: fmod_small)
  have I: "- 2147483648 \<le> ?t \<and> ?t < 2147483648" if "- 2147483648 \<le> d \<and> d < 2147483648"
    using that static_cast_int_range [of d] by simp
  show ?thesis
  proof (cases "- 2147483648 \<le> ?t \<and> ?t < 2147483648")
    case True
    then show ?thesis using W by (simp only: L R if_True split: if_split) simp
  next
    case False
    with I have "\<not> (- 2147483648 \<le> d \<and> d < 2147483648)" by blast
    with False show ?thesis by (simp only: L R if_False)
  qed
qed

text \<open>\<open>clearTimeout\<close> on every argument list that is not empty.\<close>

lemma clearTimeout_contract:
  "(\<not> isNumber v \<longrightarrow>
      clearTimeout st (v # rest) =
        (Inl (TypeError ''clearTimeout: timeout must be an integer (at the moment)''), st)) \<and>
   (m_timeoutCallbacks st (toInt32 n) \<noteq> None \<longrightarrow>
      clearTimeout st (Number n # rest) =
        (Inr Undefined,
         st\<lparr>hostTimers := (hostTimers st)(toInt32 n := None),
            m_timeoutCallbacks := (m_timeoutCallbacks st)(toInt32 n := None)\<rparr>)) \<and>
   (m_timeoutCallbacks st (toInt32 n) = None \<longrightarrow>
      clearTimeout st (Number n # rest) = (Inr Undefined, st))"
  by (cases v) (simp_all add: clearTimeout_def killTimer_def Let_def)

text \<open>\<open>clearInterval\<close> on every argument list that is not empty: a registered interval
  stays as it is, and for any other identifier the native timer of that identifier is
  stopped.\<close>

lemma clearInterval_behaviour:
  "(\<not> isNumber v \<longrightarrow>
      clearInterval st (v # rest) =
        (Inl (TypeError ''clearInterval: timeout must be an integer (at the moment)''), st)) \<and>
   (m_intervalCallbacks st (toInt32 n) \<noteq> None \<longrightarrow>
      clearInterval st (Number n # rest) = (Inr Undefined, st)) \<and>
   (m_intervalCallbacks st (toInt32 n) = None \<longrightarrow>
      clearInterval st (Number n # rest) =
        (Inr Undefined, st\<lparr>hostTimers := (hostTimers st)(toInt32 n := None)\<rparr>))"
  by (cases v) (auto simp add: clearInterval_def killTimer_def Let_def fun_upd_idem)

text \<open>The timer operations read a number through \<open>toInt32\<close> only.\<close>

lemma setTimeout_toInt32:
  "toInt32 n = toInt32 n' \<Longrightarrow>
   setTimeout a st (cb # Number n # rest) = setTimeout a st (cb # Number n' # rest)"
  by (simp add: setTimeout_def del: toInt32.simps split: option.split)

lemma setInterval_toInt32:
  "toInt32 n = toInt32 n' \<Longrightarrow>
   setInterval a st (cb # Number n # rest) = setInterval a st (cb # Number n' # rest)"
  by (simp add: setInterval_def del: toInt32.simps split: option.split)

lemma clearTimeout_toInt32:
  "toInt32 n = toInt32 n' \<Longrightarrow>
   clearTimeout st (Number n # rest) = clearTimeout st (Number n' # rest)"
  by (simp add: clearTimeout_def del: toInt32.simps)

lemma clearInterval_toInt32:
  "toInt32 n = toInt32 n' \<Longrightarrow>
   clearInterval st (Number n # rest) = clearInterval st (Number n' # rest)"
  by (simp add: clearInterval_def del: toInt32.simps)

text \<open>The interval with which the native timer is started.\<close>

lemma scheduled_delay:
  "asFunctionObject cb = Some f \<Longrightarrow> a \<noteq> 0 \<Longrightarrow>
   hostTimers (snd (setTimeout a st (cb # Number n # rest))) a =
     Some (if toInt32 n \<le> 0 then 1 else toInt32 n) \<and>
   hostTimers (snd (setInterval a st (cb # Number n # rest))) a =
     Some (if toInt32 n \<le> 0 then 1 else toInt32 n)"
  by (simp add: setTimeout_def setInterval_def startTimer_def Let_def del: toInt32.simps)


section \<open>Cancelling timers\<close>

text \<open>
  C1. \<open>clearTimeout\<close> and \<open>clearInterval\<close> are to remove a registered identifier from
  their table and stop its native timer, and to leave everything as it is for an identifier
  that is not registered. \<open>clearInterval\<close> does neither. After \<open>setInterval\<close> has
  registered timer 2, \<open>clearInterval(2)\<close> returns undefined and changes nothing: the
  callback stays in the table and the native timer keeps running. And with timer 1
  registered by \<open>setTimeout\<close> only, \<open>clearInterval(1)\<close> stops the native timer 1 while
  its callback stays in the one-shot table.
\<close>

theorem clearInterval_guard_inverted:
  "clearInterval engine2 [Number (Integer 2)] = (Inr Undefined, engine2) \<and>
   m_intervalCallbacks engine2 2 = Some (FunctionObject 0) \<and>
   hostTimers engine2 2 = Some 10 \<and>
   m_intervalCallbacks engine1 1 = None \<and>
   hostTimers engine1 1 = Some 10 \<and>
   hostTimers (snd (clearInterval engine1 [Number (Integer 1)])) 1 = None \<and>
   m_timeoutCallbacks (snd (clearInterval engine1 [Number (Integer 1)])) 1 =
     Some (FunctionObject 0)"
  by (simp add: clearInterval_def killTimer_def engine1_eq engine2_eq engine0_def)

section \<open>The registry and the module cache\<close>

text \<open>
  C2, as stated: registering a context for a host engine that already has one fails as an
  assertion. It does not: with the context 10 registered for the host engine 1, the
  constructor for a second context 20 of the same host engine succeeds, and the registry
  then gives 20.
\<close>

theorem double_registration_counterexample:
  "get registry1 1 = Some 10 \<and>
   EnginePrivate_new registry1 1 20 = Inr (registry1(1 \<mapsto> 20)) \<and>
   get (registry1(1 \<mapsto> 20)) 1 = Some 20"
  by (simp add: get_def EnginePrivate_new_def registry1_def)

text \<open>
  C2, amended: the registry holds at most one context for a host engine, the one
  registered last. Registering never fails: it puts the new context under the host engine,
  in the place of an earlier one if there is one, and leaves the other host engines as
  they are. Inserting a module into the cache under an identifier that is already cached
  fails the assertion; under a new identifier it stores the module.
\<close>

theorem registry_and_cache_insertion:
  "EnginePrivate_new m_nodeEngines hostEngine this = Inr (m_nodeEngines(hostEngine \<mapsto> this)) \<and>
   get (m_nodeEngines(hostEngine \<mapsto> this)) hostEngine = Some this \<and>
   (otherEngine \<noteq> hostEngine \<longrightarrow> get (m_nodeEngines(hostEngine \<mapsto> this)) otherEngine = get m_nodeEngines otherEngine) \<and>
   (hasCachedModule st ident \<longrightarrow>
      cacheModule st ident moduleObject =
        Inl (AssertionFailed ''!m_cachedModules.contains(id)'')) \<and>
   (\<not> hasCachedModule st ident \<longrightarrow>
      cacheModule st ident moduleObject =
        Inr (st\<lparr>m_cachedModules := (m_cachedModules st)(ident \<mapsto> moduleObject)\<rparr>) \<and>
      cachedModule (st\<lparr>m_cachedModules := (m_cachedModules st)(ident \<mapsto> moduleObject)\<rparr>)
        ident = Some moduleObject)"
  by (simp add: get_def EnginePrivate_new_def cacheModule_def cachedModule_def)

theorem registry_and_cache_insertion_witness:
  "get (registry1(1 \<mapsto> 20)) 2 = get registry1 2 \<and>
   cacheModule engine0 ''a.js'' 7 =
     Inr (engine0\<lparr>m_cachedModules := (m_cachedModules engine0)(''a.js'' \<mapsto> 7)\<rparr>) \<and>
   cacheModule (engine0\<lparr>m_cachedModules := (m_cachedModules engine0)(''a.js'' \<mapsto> 7)\<rparr>)
     ''a.js'' 8 = Inl (AssertionFailed ''!m_cachedModules.contains(id)'')"
  using registry_and_cache_insertion
          [where otherEngine = 2 and hostEngine = 1 and m_nodeEngines = registry1 and this = 20
             and st = engine0 and ident = "''a.js''" and moduleObject = 7]
        registry_and_cache_insertion
          [where otherEngine = 2 and hostEngine = 1 and m_nodeEngines = registry1 and this = 20
             and st = "engine0\<lparr>m_cachedModules := (m_cachedModules engine0)(''a.js'' \<mapsto> 7)\<rparr>"
             and ident = "''a.js''" and moduleObject = 8]
  by (simp add: hasCachedModule_def engine0_def)

section \<open>Starting timers\<close>

text \<open>
  C5. \<open>setTimeout\<close> and \<open>setInterval\<close> raise an argument error and leave the whole
  state as it is (no native timer is started, the tables are unchanged) when there are
  fewer than two arguments, when the first is not a function, or when the second is not a
  number. With a function and a number they ask the host for a timer: when the host gives
  none (0), they raise a scheduling error and the state is unchanged; when it gives the
  identifier \<open>a\<close>, the callback is stored under \<open>a\<close> in the table of the operation, the
  native timer \<open>a\<close> is running, and \<open>a\<close> is returned.
\<close>

theorem setTimeout_setInterval_contract:
  "(length args < 2 \<longrightarrow>
      setTimeout a st args = (Inl (Error ''setTimeout: missing arguments''), st) \<and>
      setInterval a st args = (Inl (Error ''setInterval: missing arguments''), st)) \<and>
   (asFunctionObject cb = None \<longrightarrow>
      setTimeout a st (cb # d # rest) =
        (Inl (TypeError ''setTimeout: callback must be a function''), st) \<and>
      setInterval a st (cb # d # rest) =
        (Inl (TypeError ''setInterval: callback must be a function''), st)) \<and>
   (asFunctionObject cb = Some f \<and> \<not> isNumber d \<longrightarrow>
      setTimeout a st (cb # d # rest) =
        (Inl (TypeError ''setTimeout: timeout must be an integer''), st) \<and>
      setInterval a st (cb # d # rest) =
        (Inl (TypeError ''setInterval: timeout must be an integer''), st)) \<and>
   (asFunctionObject cb = Some f \<and> isNumber d \<longrightarrow>
      setTimeout 0 st (cb # d # rest) = (Inl (Error ''setTimeout: cannot start timer''), st) \<and>
      setInterval 0 st (cb # d # rest) = (Inl (Error ''setInterval: cannot start timer''), st)) \<and>
   (asFunctionObject cb = Some f \<and> isNumber d \<and> a \<noteq> 0 \<longrightarrow>
      (\<exists>delay.
         setTimeout a st (cb # d # rest) =
           (Inr (Number (Integer a)),
            st\<lparr>m_timeoutCallbacks := (m_timeoutCallbacks st)(a \<mapsto> cb),
               hostTimers := (hostTimers st)(a \<mapsto> delay)\<rparr>) \<and>
         setInterval a st (cb # d # rest) =
           (Inr (Number (Integer a)),
            st\<lparr>m_intervalCallbacks := (m_intervalCallbacks st)(a \<mapsto> cb),
               hostTimers := (hostTimers st)(a \<mapsto> delay)\<rparr>)))"
proof (intro conjI impI)
  assume "length args < 2"
  then show "setTimeout a st args = (Inl (Error ''setTimeout: missing arguments''), st)"
    by (simp add: setTimeout_def)
next
  assume "length args < 2"
  then show "setInterval a st args = (Inl (Error ''setInterval: missing arguments''), st)"
    by (simp add: setInterval_def)
next
  assume "asFunctionObject cb = None"
  then show "setTimeout a st (cb # d # rest) =
      (Inl (TypeError ''setTimeout: callback must be a function''), st)"
    by (simp add: setTimeout_def)
next
  assume "asFunctionObject cb = None"
  then show "setInterval a st (cb # d # rest) =
      (Inl (TypeError ''setInterval: callback must be a function''), st)"
    by (simp add: setInterval_def)
next
  assume "asFunctionObject cb = Some f \<and> \<not> isNumber d"
  then show "setTimeout a st (cb # d # rest) =
      (Inl (TypeError ''setTimeout: timeout must be an integer''), st)"
    by (cases d) (simp_all add: setTimeout_def)
next
  assume "asFunctionObject cb = Some f \<and> \<not> isNumber d"
  then show "setInterval a st (cb # d # rest) =
      (Inl (TypeError ''setInterval: timeout must be an integer''), st)"
    by (cases d) (simp_all add: setInterval_def)
next
  assume "asFunctionObject cb = Some f \<and> isNumber d"
  then show "setTimeout 0 st (cb # d # rest) =
      (Inl (Error ''setTimeout: cannot start timer''), st)"
    by (cases d) (simp_all add: setTimeout_def startTimer_def)
next
  assume "asFunctionObject cb = Some f \<and> isNumber d"
  then show "setInterval 0 st (cb # d # rest) =
      (Inl (Error ''setInterval: cannot start timer''), st)"
    by (cases d) (simp_all add: setInterval_def startTimer_def)
next
  assume h: "asFunctionObject cb = Some f \<and> isNumber d \<and> a \<noteq> 0"
  then obtain n where d: "d = Number n"
    by (auto simp: isNumber_iff)
  from h have f: "f = cb"
    by (simp add: asFunctionObject_Some)
  let ?delay = "if toInt32 n \<le> 0 then 1 else toInt32 n"
  from h have "setTimeout a st (cb # d # rest) =
           (Inr (Number (Integer a)),
            st\<lparr>m_timeoutCallbacks := (m_timeoutCallbacks st)(a \<mapsto> cb),
               hostTimers := (hostTimers st)(a \<mapsto> ?delay)\<rparr>)"
    by (simp add: setTimeout_def startTimer_def d f Let_def)
  moreover from h have "setInterval a st (cb # d # rest) =
           (Inr (Number (Integer a)),
            st\<lparr>m_intervalCallbacks := (m_intervalCallbacks st)(a \<mapsto> cb),
               hostTimers := (hostTimers st)(a \<mapsto> ?delay)\<rparr>)"
    by (simp add: setInterval_def startTimer_def d f Let_def)
  ultimately show "\<exists>delay.
         setTimeout a st (cb # d # rest) =
           (Inr (Number (Integer a)),
            st\<lparr>m_timeoutCallbacks := (m_timeoutCallbacks st)(a \<mapsto> cb),
               hostTimers := (hostTimers st)(a \<mapsto> delay)\<rparr>) \<and>
         setInterval a st (cb # d # rest) =
           (Inr (Number (Integer a)),
            st\<lparr>m_intervalCallbacks := (m_intervalCallbacks st)(a \<mapsto> cb),
               hostTimers := (hostTimers st)(a \<mapsto> delay)\<rparr>)"
    by blast
qed

theorem setTimeout_setInterval_contract_witness:
  "setTimeout 1 engine0 [FunctionObject 0] =
     (Inl (Error ''setTimeout: missing arguments''), engine0) \<and>
   setInterval 1 engine0 [Number (Integer 3), Number (Integer 10)] =
     (Inl (TypeError ''setInterval: callback must be a function''), engine0) \<and>
   setTimeout 1 engine0 [FunctionObject 0, Str ''soon''] =
     (Inl (TypeError ''setTimeout: timeout must be an integer''), engine0) \<and>
   setInterval 0 engine0 [FunctionObject 0, Number (Integer 10)] =
     (Inl (Error ''setInterval: cannot start timer''), engine0) \<and>
   fst (setTimeout 1 engine0 [FunctionObject 0, Number (Integer 10)]) =
     Inr (Number (Integer 1)) \<and>
   m_timeoutCallbacks (snd (setTimeout 1 engine0 [FunctionObject 0, Number (Integer 10)])) 1 =
     Some (FunctionObject 0)"
  using setTimeout_setInterval_contract
          [where args = "[FunctionObject 0]" and a = 1 and st = engine0
             and cb = "Number (Integer 3)" and d = "Number (Integer 10)" and rest = "[]"]
        setTimeout_setInterval_contract
          [where args = "[]" and a = 1 and st = engine0 and f = "FunctionObject 0"
             and cb = "FunctionObject 0" and d = "Str ''soon''" and rest = "[]"]
        setTimeout_setInterval_contract
          [where args = "[]" and a = 1 and st = engine0 and f = "FunctionObject 0"
             and cb = "FunctionObject 0" and d = "Number (Integer 10)" and rest = "[]"]
  by auto

section \<open>Dispatch\<close>

text \<open>
  C4. When the host signals the expiry of a timer, the identifier is looked up in the
  one-shot table first: the native timer is stopped and the entry removed, and the callback
  is called in the state in which both are done, so that a registration which the callback
  makes, also under the same identifier, is not touched afterwards. Otherwise it is looked
  up in the repeating table, and the callback is called in the unchanged state, the entry
  still there. An identifier in neither table changes nothing.
\<close>

theorem timerEvent_dispatch:
  "(m_timeoutCallbacks st timerId = Some cb \<longrightarrow>
      timerEvent scriptCall st timerId =
        scriptCall cb (globalObject st) []
          (st\<lparr>hostTimers := (hostTimers st)(timerId := None),
              m_timeoutCallbacks := (m_timeoutCallbacks st)(timerId := None)\<rparr>)) \<and>
   (m_timeoutCallbacks st timerId = None \<and> m_intervalCallbacks st timerId = Some cb \<longrightarrow>
      timerEvent scriptCall st timerId = scriptCall cb (globalObject st) [] st) \<and>
   (m_timeoutCallbacks st timerId = None \<and> m_intervalCallbacks st timerId = None \<longrightarrow>
      timerEvent scriptCall st timerId = st)"
  by (simp add: timerEvent_def killTimer_def Let_def)

text \<open>In the witness the callback of the one-shot timer 1 sets a timeout again and the
  host gives the identifier 1 again: the new registration is there after the dispatch.\<close>

theorem timerEvent_dispatch_witness:
  "m_timeoutCallbacks engine1 1 = Some (FunctionObject 0) \<and>
   timerEvent rearmCall engine1 1 = engine1 \<and>
   m_timeoutCallbacks (timerEvent idleCall engine1 1) 1 = None \<and>
   hostTimers (timerEvent idleCall engine1 1) 1 = None \<and>
   timerEvent idleCall engine2 2 = engine2 \<and>
   timerEvent rearmCall engine2 5 = engine2"
  using timerEvent_dispatch
          [where st = engine1 and timerId = 1 and cb = "FunctionObject 0"
             and scriptCall = rearmCall]
        timerEvent_dispatch
          [where st = engine1 and timerId = 1 and cb = "FunctionObject 0"
             and scriptCall = idleCall]
        timerEvent_dispatch
          [where st = engine2 and timerId = 2 and cb = "FunctionObject 0"
             and scriptCall = idleCall]
        timerEvent_dispatch
          [where st = engine2 and timerId = 5 and cb = "FunctionObject 0"
             and scriptCall = rearmCall]
  by (simp add: engine1_eq engine2_eq engine0_def rearmCall_def idleCall_def
        setTimeout_def startTimer_def)

text \<open>
  C8. A deferred callback and a timer callback, of a one-shot or of a repeating timer, are
  called with the global object as the receiver and with no arguments. The state in which
  a timer callback starts is the one that the dispatch leaves when the call does nothing.
\<close>

theorem callbacks_receiver_and_arguments:
  "customEvent scriptCall st (NextTickEvent cb) = scriptCall cb (globalObject st) [] st \<and>
   (m_timeoutCallbacks st timerId = Some cb \<or>
    m_timeoutCallbacks st timerId = None \<and> m_intervalCallbacks st timerId = Some cb \<longrightarrow>
      timerEvent scriptCall st timerId =
        scriptCall cb (globalObject st) [] (timerEvent idleCall st timerId))"
  by (auto simp: timerEvent_def killTimer_def Let_def idleCall_def)

theorem callbacks_receiver_and_arguments_witness:
  "timerEvent rearmCall engine1 1 =
     rearmCall (FunctionObject 0) (Object 0) [] (timerEvent idleCall engine1 1) \<and>
   timerEvent rearmCall engine2 2 =
     rearmCall (FunctionObject 0) (Object 0) [] (timerEvent idleCall engine2 2)"
  using callbacks_receiver_and_arguments
          [where st = engine1 and timerId = 1 and cb = "FunctionObject 0"
             and scriptCall = rearmCall]
        callbacks_receiver_and_arguments
          [where st = engine2 and timerId = 2 and cb = "FunctionObject 0"
             and scriptCall = rearmCall]
  by (simp add: engine1_eq engine2_eq engine0_def)

section \<open>Errors\<close>

text \<open>
  C10. Every error that \<open>nextTick\<close> raises names \<open>setInterval\<close> in its message: with no
  argument it is the error "setInterval: missing arguments", with a first argument that is
  no function it is the type error "setInterval: callback must be a function", and there
  is no other.
\<close>

theorem nextTick_error_messages:
  "nextTick postEvent st [] = (Inl (Error ''setInterval: missing arguments''), st) \<and>
   (asFunctionObject cb = None \<longrightarrow>
      nextTick postEvent st (cb # rest) =
        (Inl (TypeError ''setInterval: callback must be a function''), st)) \<and>
   (fst (nextTick postEvent st args) = Inl e \<longrightarrow>
      e = Error ''setInterval: missing arguments'' \<or>
      e = TypeError ''setInterval: callback must be a function'')"
  by (auto simp: nextTick_def split: option.splits if_splits)

theorem nextTick_error_messages_witness:
  "nextTick appendEvent engine0 [Number (Integer 3)] =
     (Inl (TypeError ''setInterval: callback must be a function''), engine0) \<and>
   fst (nextTick appendEvent engine0 []) = Inl (Error ''setInterval: missing arguments'')"
  using nextTick_error_messages
          [where postEvent = appendEvent and st = engine0 and cb = "Number (Integer 3)"
             and rest = "[]" and args = "[]"
             and e = "Error ''setInterval: missing arguments''"]
  by simp

text \<open>
  C7. For every error code and syscall string, the error bridge throws an errno exception
  and leaves the engine as it is. The message of the exception is the host's string for
  the code; \<open>errno\<close> is always there and is the code; \<open>syscall\<close> is there exactly when the
  string is not empty, and is that string; \<open>path\<close> is there exactly when the path given
  to the constructor is not empty, and is that path; there is no other property.
\<close>

theorem throwErrnoException_fields:
  "fst (throwErrnoException strerror path st errorNo syscall) =
     Inl (ErrnoException (ErrnoExceptionObject_new (strerror errorNo) errorNo syscall path)) \<and>
   snd (throwErrnoException strerror path st errorNo syscall) = st \<and>
   message (ErrnoExceptionObject_new (strerror errorNo) errorNo syscall path) =
     strerror errorNo \<and>
   properties (ErrnoExceptionObject_new (strerror errorNo) errorNo syscall path) ''errno'' =
     Some (Number (Integer errorNo)) \<and>
   properties (ErrnoExceptionObject_new (strerror errorNo) errorNo syscall path) ''syscall'' =
     (if syscall = [] then None else Some (Str syscall)) \<and>
   properties (ErrnoExceptionObject_new (strerror errorNo) errorNo syscall path) ''path'' =
     (if path = [] then None else Some (Str path)) \<and>
   dom (properties (ErrnoExceptionObject_new (strerror errorNo) errorNo syscall path))
     \<subseteq> {''errno'', ''syscall'', ''path''}"
  by (simp add: throwErrnoException_def ErrnoExceptionObject_new_def
        defineDefaultProperty_def Let_def)

section \<open>Deferred callbacks and the host loop\<close>




section \<open>The delay of a timer\<close>

text \<open>
  C6, as stated: every numeric delay that is at most 0 is scheduled as 1, and a positive
  integral delay is passed on unchanged. The delay \<open>-4294967291\<close> is at most 0 and is
  scheduled as 5, and the positive integral delay \<open>2147483648\<close> is scheduled as 1: the
  comparison with 0 is made after \<open>toInt32\<close>, which reduces modulo \<open>2 ^ 32\<close>.
\<close>

theorem clamp_counterexample:
  "(- 4294967291 :: real) \<le> 0 \<and>
   hostTimers
     (snd (setTimeout 1 engine0 [FunctionObject 0, Number (Double (- 4294967291))])) 1 =
     Some 5 \<and>
   hostTimers
     (snd (setInterval 1 engine0 [FunctionObject 0, Number (Double (- 4294967291))])) 1 =
     Some 5 \<and>
   (0 :: real) < 2147483648 \<and>
   hostTimers
     (snd (setTimeout 1 engine0 [FunctionObject 0, Number (Double 2147483648)])) 1 =
     Some 1"
  by (simp add: setTimeout_def setInterval_def startTimer_def engine0_def
        static_cast_int_def fmod_def)

text \<open>
  C6, amended: the native timer is started with the interval 1 when the \<open>toInt32\<close> value
  of the delay is at most 0, and with that value otherwise. The interval is 1 for every
  integer-tagged delay that is at most 0, for every double from \<open>- 2 ^ 31\<close> to 0, and
  for minus infinity. A positive integral delay is passed on unchanged when it is
  integer-tagged or a double below \<open>2 ^ 31\<close>.
\<close>

theorem delay_clamped:
  "(asFunctionObject cb = Some f \<and> a \<noteq> 0 \<longrightarrow>
      hostTimers (snd (setTimeout a st (cb # Number n # rest))) a =
        Some (if toInt32 n \<le> 0 then 1 else toInt32 n) \<and>
      hostTimers (snd (setInterval a st (cb # Number n # rest))) a =
        Some (if toInt32 n \<le> 0 then 1 else toInt32 n)) \<and>
   (asFunctionObject cb = Some f \<and> a \<noteq> 0 \<and>
    (n = Integer i \<and> i \<le> 0 \<or> n = Double d \<and> - 2147483648 \<le> d \<and> d \<le> 0 \<or>
     n = NegInfinity) \<longrightarrow>
      hostTimers (snd (setTimeout a st (cb # Number n # rest))) a = Some 1 \<and>
      hostTimers (snd (setInterval a st (cb # Number n # rest))) a = Some 1) \<and>
   (asFunctionObject cb = Some f \<and> a \<noteq> 0 \<and> 0 < i \<and>
    (n = Integer i \<or> n = Double (real_of_int i) \<and> i < 2147483648) \<longrightarrow>
      hostTimers (snd (setTimeout a st (cb # Number n # rest))) a = Some i \<and>
      hostTimers (snd (setInterval a st (cb # Number n # rest))) a = Some i)"
proof (intro conjI impI)
  assume "asFunctionObject cb = Some f \<and> a \<noteq> 0"
  then show "hostTimers (snd (setTimeout a st (cb # Number n # rest))) a =
        Some (if toInt32 n \<le> 0 then 1 else toInt32 n)"
    "hostTimers (snd (setInterval a st (cb # Number n # rest))) a =
        Some (if toInt32 n \<le> 0 then 1 else toInt32 n)"
    by (simp_all add: scheduled_delay)
next
  assume h: "asFunctionObject cb = Some f \<and> a \<noteq> 0 \<and>
    (n = Integer i \<and> i \<le> 0 \<or> n = Double d \<and> - 2147483648 \<le> d \<and> d \<le> 0 \<or>
     n = NegInfinity)"
  then have "toInt32 n \<le> 0"
    by (auto simp: static_cast_int_def)
  with h show "hostTimers (snd (setTimeout a st (cb # Number n # rest))) a = Some 1"
    "hostTimers (snd (setInterval a st (cb # Number n # rest))) a = Some 1"
    by (simp_all add: scheduled_delay del: toInt32.simps)
next
  assume h: "asFunctionObject cb = Some f \<and> a \<noteq> 0 \<and> 0 < i \<and>
    (n = Integer i \<or> n = Double (real_of_int i) \<and> i < 2147483648)"
  then have "toInt32 n = i"
    by (auto simp: toInt32_of_int simp del: toInt32.simps(2))
  with h show "hostTimers (snd (setTimeout a st (cb # Number n # rest))) a = Some i"
    "hostTimers (snd (setInterval a st (cb # Number n # rest))) a = Some i"
    by (simp_all add: scheduled_delay del: toInt32.simps)
qed

theorem delay_clamped_witness:
  "hostTimers (snd (setTimeout 1 engine0 [FunctionObject 0, Number (Integer 0)])) 1 = Some 1 \<and>
   hostTimers (snd (setInterval 1 engine0 [FunctionObject 0, Number (Double (- 5))])) 1 = Some 1 \<and>
   hostTimers (snd (setTimeout 1 engine0 [FunctionObject 0, Number (Double 10)])) 1 = Some 10 \<and>
   hostTimers (snd (setInterval 1 engine0 [FunctionObject 0, Number (Integer 10)])) 1 = Some 10"
  using delay_clamped
          [where cb = "FunctionObject 0" and f = "FunctionObject 0" and a = 1 and st = engine0
             and rest = "[]" and n = "Integer 0" and i = 0 and d = 0]
        delay_clamped
          [where cb = "FunctionObject 0" and f = "FunctionObject 0" and a = 1 and st = engine0
             and rest = "[]" and n = "Double (- 5)" and i = 0 and d = "- 5"]
        delay_clamped
          [where cb = "FunctionObject 0" and f = "FunctionObject 0" and a = 1 and st = engine0
             and rest = "[]" and n = "Double 10" and i = 10 and d = 0]
        delay_clamped
          [where cb = "FunctionObject 0" and f = "FunctionObject 0" and a = 1 and st = engine0
             and rest = "[]" and n = "Integer 10" and i = 10 and d = 0]
  by (simp add: static_cast_int_def)

text \<open>
  C9. The four timer operations read their numeric argument through \<open>toInt32\<close>, and a
  fraction is dropped towards zero. For a double \<open>d\<close> let \<open>t\<close> be the integer with the
  sign of \<open>d\<close> and the magnitude \<open>\<lfloor>\<bar>d\<bar>\<rfloor>\<close>. Each of the four operations gives for
  \<open>d\<close> what it gives for the whole number \<open>t\<close>. And for \<open>d\<close> inside the 32-bit range:
  \<open>setTimeout\<close> and \<open>setInterval\<close> start the native timer with the interval \<open>t\<close> (1
  when \<open>t\<close> is at most 0) and store the callback; \<open>clearTimeout\<close> removes the entry \<open>t\<close>
  of the one-shot table and stops the native timer \<open>t\<close> when \<open>t\<close> is registered there,
  and does nothing otherwise; \<open>clearInterval\<close> looks \<open>t\<close> up in the repeating table,
  does nothing when it is there and stops the native timer \<open>t\<close> when it is not.
\<close>

theorem fractional_arguments_truncated:
  "t = (if d < 0 then - \<lfloor>\<bar>d\<bar>\<rfloor> else \<lfloor>\<bar>d\<bar>\<rfloor>) \<longrightarrow>
     setTimeout a st (cb # Number (Double d) # rest) =
       setTimeout a st (cb # Number (Double (real_of_int t)) # rest) \<and>
     setInterval a st (cb # Number (Double d) # rest) =
       setInterval a st (cb # Number (Double (real_of_int t)) # rest) \<and>
     clearTimeout st (Number (Double d) # rest) =
       clearTimeout st (Number (Double (real_of_int t)) # rest) \<and>
     clearInterval st (Number (Double d) # rest) =
       clearInterval st (Number (Double (real_of_int t)) # rest) \<and>
     (- 2147483648 \<le> d \<and> d < 2147483648 \<longrightarrow>
        (asFunctionObject cb = Some f \<and> a \<noteq> 0 \<longrightarrow>
           setTimeout a st (cb # Number (Double d) # rest) =
             (Inr (Number (Integer a)),
              st\<lparr>m_timeoutCallbacks := (m_timeoutCallbacks st)(a \<mapsto> cb),
                 hostTimers := (hostTimers st)(a \<mapsto> (if t \<le> 0 then 1 else t))\<rparr>) \<and>
           setInterval a st (cb # Number (Double d) # rest) =
             (Inr (Number (Integer a)),
              st\<lparr>m_intervalCallbacks := (m_intervalCallbacks st)(a \<mapsto> cb),
                 hostTimers := (hostTimers st)(a \<mapsto> (if t \<le> 0 then 1 else t))\<rparr>)) \<and>
        (m_timeoutCallbacks st t \<noteq> None \<longrightarrow>
           clearTimeout st (Number (Double d) # rest) =
             (Inr Undefined,
              st\<lparr>hostTimers := (hostTimers st)(t := None),
                 m_timeoutCallbacks := (m_timeoutCallbacks st)(t := None)\<rparr>)) \<and>
        (m_timeoutCallbacks st t = None \<longrightarrow>
           clearTimeout st (Number (Double d) # rest) = (Inr Undefined, st)) \<and>
        (m_intervalCallbacks st t \<noteq> None \<longrightarrow>
           clearInterval st (Number (Double d) # rest) = (Inr Undefined, st)) \<and>
        (m_intervalCallbacks st t = None \<longrightarrow>
           clearInterval st (Number (Double d) # rest) =
             (Inr Undefined, st\<lparr>hostTimers := (hostTimers st)(t := None)\<rparr>)))"
proof (intro impI)
  assume "t = (if d < 0 then - \<lfloor>\<bar>d\<bar>\<rfloor> else \<lfloor>\<bar>d\<bar>\<rfloor>)"
  then have c: "static_cast_int d = t"
    by (simp only: static_cast_int_trunc)
  have w: "toInt32 (Double d) = toInt32 (Double (real_of_int t))"
    using toInt32_fraction [of d] by (simp only: c)
  have whole:
    "setTimeout a st (cb # Number (Double d) # rest) =
       setTimeout a st (cb # Number (Double (real_of_int t)) # rest) \<and>
     setInterval a st (cb # Number (Double d) # rest) =
       setInterval a st (cb # Number (Double (real_of_int t)) # rest) \<and>
     clearTimeout st (Number (Double d) # rest) =
       clearTimeout st (Number (Double (real_of_int t)) # rest) \<and>
     clearInterval st (Number (Double d) # rest) =
       clearInterval st (Number (Double (real_of_int t)) # rest)"
    by (intro conjI setTimeout_toInt32 setInterval_toInt32 clearTimeout_toInt32
          clearInterval_toInt32 w)
  have inside: "(asFunctionObject cb = Some f \<and> a \<noteq> 0 \<longrightarrow>
           setTimeout a st (cb # Number (Double d) # rest) =
             (Inr (Number (Integer a)),
              st\<lparr>m_timeoutCallbacks := (m_timeoutCallbacks st)(a \<mapsto> cb),
                 hostTimers := (hostTimers st)(a \<mapsto> (if t \<le> 0 then 1 else t))\<rparr>) \<and>
           setInterval a st (cb # Number (Double d) # rest) =
             (Inr (Number (Integer a)),
              st\<lparr>m_intervalCallbacks := (m_intervalCallbacks st)(a \<mapsto> cb),
                 hostTimers := (hostTimers st)(a \<mapsto> (if t \<le> 0 then 1 else t))\<rparr>)) \<and>
        (m_timeoutCallbacks st t \<noteq> None \<longrightarrow>
           clearTimeout st (Number (Double d) # rest) =
             (Inr Undefined,
              st\<lparr>hostTimers := (hostTimers st)(t := None),
                 m_timeoutCallbacks := (m_timeoutCallbacks st)(t := None)\<rparr>)) \<and>
        (m_timeoutCallbacks st t = None \<longrightarrow>
           clearTimeout st (Number (Double d) # rest) = (Inr Undefined, st)) \<and>
        (m_intervalCallbacks st t \<noteq> None \<longrightarrow>
           clearInterval st (Number (Double d) # rest) = (Inr Undefined, st)) \<and>
        (m_intervalCallbacks st t = None \<longrightarrow>
           clearInterval st (Number (Double d) # rest) =
             (Inr Undefined, st\<lparr>hostTimers := (hostTimers st)(t := None)\<rparr>))"
    if r: "- 2147483648 \<le> d \<and> d < 2147483648"
  proof -
    from r c have t: "toInt32 (Double d) = t"
      by simp
    have start: "setTimeout a st (cb # Number (Double d) # rest) =
             (Inr (Number (Integer a)),
              st\<lparr>m_timeoutCallbacks := (m_timeoutCallbacks st)(a \<mapsto> cb),
                 hostTimers := (hostTimers st)(a \<mapsto> (if t \<le> 0 then 1 else t))\<rparr>) \<and>
           setInterval a st (cb # Number (Double d) # rest) =
             (Inr (Number (Integer a)),
              st\<lparr>m_intervalCallbacks := (m_intervalCallbacks st)(a \<mapsto> cb),
                 hostTimers := (hostTimers st)(a \<mapsto> (if t \<le> 0 then 1 else t))\<rparr>)"
      if "asFunctionObject cb = Some f \<and> a \<noteq> 0"
    proof -
      from that have "f = cb"
        by (simp add: asFunctionObject_Some)
      with that show ?thesis
        by (simp add: setTimeout_def setInterval_def startTimer_def Let_def t
              del: toInt32.simps)
    qed
    have clear: "(m_timeoutCallbacks st t \<noteq> None \<longrightarrow>
           clearTimeout st (Number (Double d) # rest) =
             (Inr Undefined,
              st\<lparr>hostTimers := (hostTimers st)(t := None),
                 m_timeoutCallbacks := (m_timeoutCallbacks st)(t := None)\<rparr>)) \<and>
        (m_timeoutCallbacks st t = None \<longrightarrow>
           clearTimeout st (Number (Double d) # rest) = (Inr Undefined, st))"
      using clearTimeout_contract [of Undefined st rest "Double d"] by (simp only: t) simp
    have clearI: "(m_intervalCallbacks st t \<noteq> None \<longrightarrow>
           clearInterval st (Number (Double d) # rest) = (Inr Undefined, st)) \<and>
        (m_intervalCallbacks st t = None \<longrightarrow>
           clearInterval st (Number (Double d) # rest) =
             (Inr Undefined, st\<lparr>hostTimers := (hostTimers st)(t := None)\<rparr>))"
      using clearInterval_behaviour [of Undefined st rest "Double d"] by (simp only: t) simp
    from start clear clearI show ?thesis
      by blast
  qed
  from whole inside show "setTimeout a st (cb # Number (Double d) # rest) =
       setTimeout a st (cb # Number (Double (real_of_int t)) # rest) \<and>
     setInterval a st (cb # Number (Double d) # rest) =
       setInterval a st (cb # Number (Double (real_of_int t)) # rest) \<and>
     clearTimeout st (Number (Double d) # rest) =
       clearTimeout st (Number (Double (real_of_int t)) # rest) \<and>
     clearInterval st (Number (Double d) # rest) =
       clearInterval st (Number (Double (real_of_int t)) # rest) \<and>
     (- 2147483648 \<le> d \<and> d < 2147483648 \<longrightarrow>
        (asFunctionObject cb = Some f \<and> a \<noteq> 0 \<longrightarrow>
           setTimeout a st (cb # Number (Double d) # rest) =
             (Inr (Number (Integer a)),
              st\<lparr>m_timeoutCallbacks := (m_timeoutCallbacks st)(a \<mapsto> cb),
                 hostTimers := (hostTimers st)(a \<mapsto> (if t \<le> 0 then 1 else t))\<rparr>) \<and>
           setInterval a st (cb # Number (Double d) # rest) =
             (Inr (Number (Integer a)),
              st\<lparr>m_intervalCallbacks := (m_intervalCallbacks st)(a \<mapsto> cb),
                 hostTimers := (hostTimers st)(a \<mapsto> (if t \<le> 0 then 1 else t))\<rparr>)) \<and>
        (m_timeoutCallbacks st t \<noteq> None \<longrightarrow>
           clearTimeout st (Number (Double d) # rest) =
             (Inr Undefined,
              st\<lparr>hostTimers := (hostTimers st)(t := None),
                 m_timeoutCallbacks := (m_timeoutCallbacks st)(t := None)\<rparr>)) \<and>
        (m_timeoutCallbacks st t = None \<longrightarrow>
           clearTimeout st (Number (Double d) # rest) = (Inr Undefined, st)) \<and>
        (m_intervalCallbacks st t \<noteq> None \<longrightarrow>
           clearInterval st (Number (Double d) # rest) = (Inr Undefined, st)) \<and>
        (m_intervalCallbacks st t = None \<longrightarrow>
           clearInterval st (Number (Double d) # rest) =
             (Inr Undefined, st\<lparr>hostTimers := (hostTimers st)(t := None)\<rparr>)))"
    by blast
qed

text \<open>In the witness \<open>setTimeout(f, 5.9)\<close> starts the native timer with the interval 5,
  \<open>setInterval(f, -5.9)\<close> with the interval 1, \<open>clearTimeout(1.9)\<close> removes the pending
  timer 1, and \<open>clearInterval(2.9)\<close> leaves the running interval 2 as it is.\<close>

theorem fractional_arguments_truncated_witness:
  "setTimeout 1 engine0 [FunctionObject 0, Number (Double (59 / 10))] =
     (Inr (Number (Integer 1)),
      engine0\<lparr>m_timeoutCallbacks := [1 \<mapsto> FunctionObject 0], hostTimers := [1 \<mapsto> 5]\<rparr>) \<and>
   setInterval 1 engine0 [FunctionObject 0, Number (Double (- 59 / 10))] =
     (Inr (Number (Integer 1)),
      engine0\<lparr>m_intervalCallbacks := [1 \<mapsto> FunctionObject 0], hostTimers := [1 \<mapsto> 1]\<rparr>) \<and>
   m_timeoutCallbacks engine1 1 = Some (FunctionObject 0) \<and>
   clearTimeout engine1 [Number (Double (19 / 10))] = (Inr Undefined, engine0) \<and>
   m_intervalCallbacks engine2 2 = Some (FunctionObject 0) \<and>
   clearInterval engine2 [Number (Double (29 / 10))] = (Inr Undefined, engine2)"
  using fractional_arguments_truncated
          [where d = "59 / 10" and t = 5 and a = 1 and st = engine0
             and cb = "FunctionObject 0" and f = "FunctionObject 0" and rest = "[]"]
        fractional_arguments_truncated
          [where d = "- 59 / 10" and t = "- 5" and a = 1 and st = engine0
             and cb = "FunctionObject 0" and f = "FunctionObject 0" and rest = "[]"]
        fractional_arguments_truncated
          [where d = "19 / 10" and t = 1 and a = 1 and st = engine1
             and cb = "FunctionObject 0" and f = "FunctionObject 0" and rest = "[]"]
        fractional_arguments_truncated
          [where d = "29 / 10" and t = 2 and a = 1 and st = engine2
             and cb = "FunctionObject 0" and f = "FunctionObject 0" and rest = "[]"]
  by (simp add: engine1_eq engine2_eq engine0_def setTimeout_def setInterval_def
        clearTimeout_def clearInterval_def startTimer_def killTimer_def static_cast_int_def)

end
